theory Spec2Isabelle
  imports Main
begin

section \<open>benthos\_config\_gen: the example-configuration generator\<close>

text \<open>
  A shallow embedding of \<^verbatim>\<open>cmd/tools/benthos_config_gen/main.go\<close>. The tool builds, for
  every connector type name of the engine library, a default configuration with a few
  overrides, sanitises it and writes it as YAML and as JSON.

  The engine library (\<^verbatim>\<open>lib/api\<close>, \<^verbatim>\<open>lib/input\<close>, \<^verbatim>\<open>lib/buffer\<close>, \<^verbatim>\<open>lib/pipeline\<close>,
  \<^verbatim>\<open>lib/output\<close>, \<^verbatim>\<open>lib/processor\<close>), the two encoders, \<^verbatim>\<open>filepath.Join\<close> and the operating
  system are not part of the program: they are the fields of the record \<open>extern\<close>, which
  every function of the model takes as its first argument.
\<close>

subsection \<open>Data\<close>

text \<open>A Go \<^verbatim>\<open>error\<close> value.\<close>

datatype error = Error string

text \<open>
  The section configurations of the library. The program reads and writes only the
  \<^verbatim>\<open>Type\<close> and \<^verbatim>\<open>Processors\<close> fields; every other field of a section is kept in
  the \<open>other\<close> field. The type variable \<open>'p\<close> is \<^verbatim>\<open>processor.Config\<close>. A Go slice is a
  list, and the \<^verbatim>\<open>nil\<close> slice is the empty list.
\<close>

record ('p, 'x) input_Config =
  input_Type :: string
  input_Processors :: "'p list"
  input_other :: 'x

record ('p, 'z) pipeline_Config =
  pipeline_Processors :: "'p list"
  pipeline_other :: 'z

record ('p, 'y) output_Config =
  output_Type :: string
  output_Processors :: "'p list"
  output_other :: 'y

text \<open>\<^verbatim>\<open>type Config struct\<close>: \<open>'h\<close> is \<^verbatim>\<open>api.Config\<close>, \<open>'b\<close> is \<^verbatim>\<open>buffer.Config\<close>.\<close>

record ('h, 'p, 'x, 'b, 'z, 'y) Config =
  HTTP :: 'h
  Input :: "('p, 'x) input_Config"
  Buffer :: 'b
  Pipeline :: "('p, 'z) pipeline_Config"
  Output :: "('p, 'y) output_Config"

text \<open>
  The anonymous struct that \<^verbatim>\<open>Sanitised\<close> returns: five \<^verbatim>\<open>interface{}\<close> fields. The
  \<^verbatim>\<open>HTTP\<close> field holds an \<^verbatim>\<open>api.Config\<close>, the other four hold what the library's
  sanitisers return (type \<open>'s\<close>).
\<close>

record ('h, 's) Sanitised_Config =
  san_HTTP :: 'h
  san_Input :: 's
  san_Buffer :: 's
  san_Pipeline :: 's
  san_Output :: 's

text \<open>
  What the program does to the outside, in the order it does it: the calls of the four
  sanitisers, the calls of \<^verbatim>\<open>ioutil.WriteFile\<close> (file name, data, permission argument) and
  the lines printed.
\<close>

datatype config_section = SecInput | SecBuffer | SecPipeline | SecOutput

datatype event =
  SanitiseConfig config_section
  | WriteFile string string nat
  | Printf string

text \<open>The file system (file name to content) and the events so far.\<close>

record world =
  files :: "string \<rightharpoonup> string"
  trace :: "event list"

text \<open>
  Everything the program imports. \<open>WriteFile_failure\<close> decides, from the file system, the
  file name and the data, whether a write fails, with which error, and what is left at
  that file name then (nothing, the old content or a part of the new one).
\<close>

record ('h, 'p, 'x, 'b, 'z, 'y, 'c, 's) extern =
  api_NewConfig :: 'h
  input_NewConfig :: "('p, 'x) input_Config"
  buffer_NewConfig :: 'b
  pipeline_NewConfig :: "('p, 'z) pipeline_Config"
  output_NewConfig :: "('p, 'y) output_Config"
  processor_NewConfig :: 'p
  input_Constructors :: "string \<rightharpoonup> 'c"
  output_Constructors :: "string \<rightharpoonup> 'c"
  input_SanitiseConfig :: "('p, 'x) input_Config \<Rightarrow> error + 's"
  buffer_SanitiseConfig :: "'b \<Rightarrow> error + 's"
  pipeline_SanitiseConfig :: "('p, 'z) pipeline_Config \<Rightarrow> error + 's"
  output_SanitiseConfig :: "('p, 'y) output_Config \<Rightarrow> error + 's"
  yaml_Marshal :: "('h, 's) Sanitised_Config \<Rightarrow> error + string"
  json_MarshalIndent :: "('h, 's) Sanitised_Config \<Rightarrow> string \<Rightarrow> string \<Rightarrow> error + string"
  filepath_Join :: "string \<Rightarrow> string \<Rightarrow> string"
  WriteFile_failure :: "(string \<rightharpoonup> string) \<Rightarrow> string \<Rightarrow> string \<Rightarrow> (error \<times> string option) option"

subsection \<open>The configuration\<close>

text \<open>\<^verbatim>\<open>func NewConfig() Config\<close>\<close>

definition NewConfig ::
  "('h, 'p, 'x, 'b, 'z, 'y, 'c, 's) extern \<Rightarrow> ('h, 'p, 'x, 'b, 'z, 'y) Config" where
  "NewConfig ex =
     \<lparr>HTTP = api_NewConfig ex,
      Input = input_NewConfig ex,
      Buffer = buffer_NewConfig ex,
      Pipeline = pipeline_NewConfig ex,
      Output = output_NewConfig ex\<rparr>"

text \<open>
  \<^verbatim>\<open>func (c Config) Sanitised() (interface{}, error)\<close>. The first component of the result
  lists the sanitisers that were called, in order; the second is the returned pair, an
  error (\<open>Inl\<close>) or the struct (\<open>Inr\<close>).
\<close>

definition Sanitised ::
  "('h, 'p, 'x, 'b, 'z, 'y, 'c, 's) extern \<Rightarrow> ('h, 'p, 'x, 'b, 'z, 'y) Config
     \<Rightarrow> config_section list \<times> (error + ('h, 's) Sanitised_Config)" where
  "Sanitised ex c =
     (case input_SanitiseConfig ex (Input c) of
        Inl err \<Rightarrow> ([SecInput], Inl err)
      | Inr inConf \<Rightarrow>
     (case buffer_SanitiseConfig ex (Buffer c) of
        Inl err \<Rightarrow> ([SecInput, SecBuffer], Inl err)
      | Inr bufConf \<Rightarrow>
     (case pipeline_SanitiseConfig ex (Pipeline c) of
        Inl err \<Rightarrow> ([SecInput, SecBuffer, SecPipeline], Inl err)
      | Inr pipeConf \<Rightarrow>
     (case output_SanitiseConfig ex (Output c) of
        Inl err \<Rightarrow> ([SecInput, SecBuffer, SecPipeline, SecOutput], Inl err)
      | Inr outConf \<Rightarrow>
          ([SecInput, SecBuffer, SecPipeline, SecOutput],
           Inr \<lparr>san_HTTP = HTTP c,
                san_Input = inConf,
                san_Buffer = bufConf,
                san_Pipeline = pipeConf,
                san_Output = outConf\<rparr>)))))"

subsection \<open>Writing the files\<close>

text \<open>The permission argument \<^verbatim>\<open>0644\<close>, an octal literal.\<close>

definition perm_0644 :: nat where
  "perm_0644 = 6 * 64 + 4 * 8 + 4"

text \<open>
  \<^verbatim>\<open>ioutil.WriteFile(filename, data, perm)\<close>: the call is recorded; on success the file
  holds exactly the data, whatever it held before.
\<close>

definition ioutil_WriteFile ::
  "('h, 'p, 'x, 'b, 'z, 'y, 'c, 's) extern \<Rightarrow> string \<Rightarrow> string \<Rightarrow> nat \<Rightarrow> world
     \<Rightarrow> error option \<times> world" where
  "ioutil_WriteFile ex filename data perm w =
     (let w1 = w\<lparr>trace := trace w @ [WriteFile filename data perm]\<rparr>
      in case WriteFile_failure ex (files w) filename data of
           None \<Rightarrow> (None, w1\<lparr>files := (files w)(filename \<mapsto> data)\<rparr>)
         | Some (err, left) \<Rightarrow> (Some err, w1\<lparr>files := (files w)(filename := left)\<rparr>))"

text \<open>\<^verbatim>\<open>fmt.Printf("Generated '%v' config at: %v\n", t, path)\<close>\<close>

definition print_generated :: "string \<Rightarrow> string \<Rightarrow> world \<Rightarrow> world" where
  "print_generated t path w =
     w\<lparr>trace := trace w @
        [Printf (''Generated '' @ [CHR 0x27] @ t @ [CHR 0x27] @ '' config at: '' @ path
                 @ [CHR 0x0A])]\<rparr>"

text \<open>The header of a YAML file, with its newline.\<close>

definition yaml_header :: string where
  "yaml_header = ''# This file was auto generated by benthos_config_gen.'' @ [CHR 0x0A]"

text \<open>
  \<^verbatim>\<open>func createYAML(t, path string, sanit interface{})\<close>. A panic ends the process: the
  result is the error and the world at that moment.
\<close>

definition createYAML ::
  "('h, 'p, 'x, 'b, 'z, 'y, 'c, 's) extern \<Rightarrow> string \<Rightarrow> string \<Rightarrow> ('h, 's) Sanitised_Config
     \<Rightarrow> world \<Rightarrow> error option \<times> world" where
  "createYAML ex t path sanit w =
     (let resBytes = yaml_header
      in case yaml_Marshal ex sanit of
           Inl err \<Rightarrow> (Some err, w)
         | Inr cBytes \<Rightarrow>
             (let resBytes = resBytes @ cBytes
              in case ioutil_WriteFile ex path resBytes perm_0644 w of
                   (Some err, w') \<Rightarrow> (Some err, w')
                 | (None, w') \<Rightarrow> (None, print_generated t path w')))"

text \<open>\<^verbatim>\<open>func createJSON(t, path string, sanit interface{})\<close>; the indent is one tab.\<close>

definition createJSON ::
  "('h, 'p, 'x, 'b, 'z, 'y, 'c, 's) extern \<Rightarrow> string \<Rightarrow> string \<Rightarrow> ('h, 's) Sanitised_Config
     \<Rightarrow> world \<Rightarrow> error option \<times> world" where
  "createJSON ex t path sanit w =
     (case json_MarshalIndent ex sanit [] [CHR 0x09] of
        Inl err \<Rightarrow> (Some err, w)
      | Inr resBytes \<Rightarrow>
          (case ioutil_WriteFile ex path resBytes perm_0644 w of
             (Some err, w') \<Rightarrow> (Some err, w')
           | (None, w') \<Rightarrow> (None, print_generated t path w')))"

subsection \<open>The main loop\<close>

text \<open>
  Lines 149 to 159 of \<^verbatim>\<open>main\<close>: the configuration of the type name \<open>t\<close>, as it is
  handed to \<^verbatim>\<open>Sanitised\<close>.
\<close>

definition type_config ::
  "('h, 'p, 'x, 'b, 'z, 'y, 'c, 's) extern \<Rightarrow> string \<Rightarrow> ('h, 'p, 'x, 'b, 'z, 'y) Config" where
  "type_config ex t =
     (let conf = NewConfig ex;
          conf = conf\<lparr>Input := (Input conf)\<lparr>input_Processors := []\<rparr>\<rparr>;
          conf = conf\<lparr>Output := (Output conf)\<lparr>output_Processors := []\<rparr>\<rparr>;
          conf = conf\<lparr>Pipeline := (Pipeline conf)\<lparr>pipeline_Processors :=
                        pipeline_Processors (Pipeline conf) @ [processor_NewConfig ex]\<rparr>\<rparr>;
          conf = (if input_Constructors ex t \<noteq> None
                  then conf\<lparr>Input := (Input conf)\<lparr>input_Type := t\<rparr>\<rparr> else conf);
          conf = (if output_Constructors ex t \<noteq> None
                  then conf\<lparr>Output := (Output conf)\<lparr>output_Type := t\<rparr>\<rparr> else conf)
      in conf)"

text \<open>The body of the loop over \<^verbatim>\<open>typeMap\<close>, for the type name \<open>t\<close>.\<close>

definition loop_body ::
  "('h, 'p, 'x, 'b, 'z, 'y, 'c, 's) extern \<Rightarrow> string \<Rightarrow> string \<Rightarrow> world
     \<Rightarrow> error option \<times> world" where
  "loop_body ex configsDir t w =
     (let conf = type_config ex t;
          (calls, res) = Sanitised ex conf;
          w = w\<lparr>trace := trace w @ map SanitiseConfig calls\<rparr>
      in case res of
           Inl err \<Rightarrow> (Some err, w)
         | Inr sanit \<Rightarrow>
             (case createYAML ex t (filepath_Join ex configsDir (t @ ''.yaml'')) sanit w of
                (Some err, w') \<Rightarrow> (Some err, w')
              | (None, w') \<Rightarrow>
                  createJSON ex t (filepath_Join ex configsDir (t @ ''.json'')) sanit w'))"

text \<open>
  \<^verbatim>\<open>for t := range typeMap\<close>, given the order \<open>ts\<close> in which the names are visited. The
  loop stops at the first panic.
\<close>

fun main_loop ::
  "('h, 'p, 'x, 'b, 'z, 'y, 'c, 's) extern \<Rightarrow> string \<Rightarrow> string list \<Rightarrow> world
     \<Rightarrow> error option \<times> world" where
  "main_loop ex configsDir [] w = (None, w)"
| "main_loop ex configsDir (t # ts) w =
     (case loop_body ex configsDir t w of
        (Some err, w') \<Rightarrow> (Some err, w')
      | (None, w') \<Rightarrow> main_loop ex configsDir ts w')"

text \<open>
  A \<^verbatim>\<open>range\<close> over a Go map visits every key once, in an order the language does not
  fix: \<open>ks\<close> is such an order for the map \<open>m\<close>.
\<close>

definition range_order :: "('k \<rightharpoonup> 'v) \<Rightarrow> 'k list \<Rightarrow> bool" where
  "range_order m ks \<longleftrightarrow> distinct ks \<and> set ks = dom m"

text \<open>
  Lines 139 to 145: \<^verbatim>\<open>typeMap\<close>, filled from the keys of the two registries, visited in
  the orders \<open>ins\<close> and \<open>outs\<close>.
\<close>

definition typeMap :: "string list \<Rightarrow> string list \<Rightarrow> (string \<rightharpoonup> unit)" where
  "typeMap ins outs =
     fold (\<lambda>t m. m(t \<mapsto> ())) outs (fold (\<lambda>t m. m(t \<mapsto> ())) ins Map.empty)"

text \<open>
  The three \<^verbatim>\<open>range\<close> loops of \<^verbatim>\<open>main\<close> visit the input registry in the order \<open>ins\<close>,
  the output registry in the order \<open>outs\<close> and \<^verbatim>\<open>typeMap\<close> in the order \<open>ts\<close>.
\<close>

definition main_orders ::
  "('h, 'p, 'x, 'b, 'z, 'y, 'c, 's) extern \<Rightarrow> string list \<Rightarrow> string list \<Rightarrow> string list
     \<Rightarrow> bool" where
  "main_orders ex ins outs ts \<longleftrightarrow>
     range_order (input_Constructors ex) ins \<and>
     range_order (output_Constructors ex) outs \<and>
     range_order (typeMap ins outs) ts"

text \<open>
  \<^verbatim>\<open>func main()\<close>, with the value of the \<^verbatim>\<open>dir\<close> flag (default \<^verbatim>\<open>./config\<close>) and the
  order \<open>ts\<close> of the loop over \<^verbatim>\<open>typeMap\<close>.
\<close>

definition configsDir_default :: string where
  "configsDir_default = ''./config''"

definition main ::
  "('h, 'p, 'x, 'b, 'z, 'y, 'c, 's) extern \<Rightarrow> string \<Rightarrow> string list \<Rightarrow> world
     \<Rightarrow> error option \<times> world" where
  "main ex configsDir ts w = main_loop ex configsDir ts w"

subsection \<open>Observations\<close>

text \<open>The calls of \<^verbatim>\<open>ioutil.WriteFile\<close> among some events: file name, data, permission.\<close>

fun writes :: "event list \<Rightarrow> (string \<times> string \<times> nat) list" where
  "writes [] = []"
| "writes (WriteFile p d m # es) = (p, d, m) # writes es"
| "writes (SanitiseConfig s # es) = writes es"
| "writes (Printf l # es) = writes es"

text \<open>The file system after the successful writes \<open>ws\<close>, in order: the last write wins.\<close>

definition replay :: "(string \<times> string \<times> nat) list \<Rightarrow> (string \<rightharpoonup> string) \<Rightarrow> (string \<rightharpoonup> string)" where
  "replay ws fs = fold (\<lambda>(p, d, m) f. f(p \<mapsto> d)) ws fs"

text \<open>
  The two file names that the loop body of the type name \<open>t\<close> passes to \<^verbatim>\<open>createYAML\<close>
  and \<^verbatim>\<open>createJSON\<close> (lines 166 and 167), and those of a list of names.
\<close>

definition yaml_path :: "('h, 'p, 'x, 'b, 'z, 'y, 'c, 's) extern \<Rightarrow> string \<Rightarrow> string \<Rightarrow> string" where
  "yaml_path ex configsDir t = filepath_Join ex configsDir (t @ ''.yaml'')"

definition json_path :: "('h, 'p, 'x, 'b, 'z, 'y, 'c, 's) extern \<Rightarrow> string \<Rightarrow> string \<Rightarrow> string" where
  "json_path ex configsDir t = filepath_Join ex configsDir (t @ ''.json'')"

definition out_paths ::
  "('h, 'p, 'x, 'b, 'z, 'y, 'c, 's) extern \<Rightarrow> string \<Rightarrow> string list \<Rightarrow> string list" where
  "out_paths ex configsDir ts =
     concat (map (\<lambda>t. [yaml_path ex configsDir t, json_path ex configsDir t]) ts)"

text \<open>
  The bytes that \<^verbatim>\<open>createYAML\<close> and \<^verbatim>\<open>createJSON\<close> hand to \<^verbatim>\<open>ioutil.WriteFile\<close> for the type
  name \<open>t\<close>, when sanitising and encoding succeed.
\<close>

definition yaml_bytes :: "('h, 'p, 'x, 'b, 'z, 'y, 'c, 's) extern \<Rightarrow> string \<Rightarrow> string option" where
  "yaml_bytes ex t =
     (case snd (Sanitised ex (type_config ex t)) of
        Inl err \<Rightarrow> None
      | Inr sanit \<Rightarrow>
          (case yaml_Marshal ex sanit of
             Inl err \<Rightarrow> None
           | Inr cBytes \<Rightarrow> Some (yaml_header @ cBytes)))"

definition json_bytes :: "('h, 'p, 'x, 'b, 'z, 'y, 'c, 's) extern \<Rightarrow> string \<Rightarrow> string option" where
  "json_bytes ex t =
     (case snd (Sanitised ex (type_config ex t)) of
        Inl err \<Rightarrow> None
      | Inr sanit \<Rightarrow>
          (case json_MarshalIndent ex sanit [] [CHR 0x09] of
             Inl err \<Rightarrow> None
           | Inr resBytes \<Rightarrow> Some resBytes))"

text \<open>The two calls of \<^verbatim>\<open>ioutil.WriteFile\<close> of a loop body that does not panic.\<close>

definition body_writes ::
  "('h, 'p, 'x, 'b, 'z, 'y, 'c, 's) extern \<Rightarrow> string \<Rightarrow> string \<Rightarrow> (string \<times> string \<times> nat) list" where
  "body_writes ex configsDir t =
     (case (yaml_bytes ex t, json_bytes ex t) of
        (Some y, Some j) \<Rightarrow>
          [(yaml_path ex configsDir t, y, perm_0644), (json_path ex configsDir t, j, perm_0644)]
      | _ \<Rightarrow> [])"

text \<open>No two files of the type names \<open>N\<close> have the same file name.\<close>

definition paths_distinct ::
  "('h, 'p, 'x, 'b, 'z, 'y, 'c, 's) extern \<Rightarrow> string \<Rightarrow> string set \<Rightarrow> bool" where
  "paths_distinct ex configsDir N \<longleftrightarrow>
     inj_on (yaml_path ex configsDir) N \<and> inj_on (json_path ex configsDir) N \<and>
     yaml_path ex configsDir ` N \<inter> json_path ex configsDir ` N = {}"

subsection \<open>A small library for the examples\<close>

text \<open>
  A library with the input types \<^verbatim>\<open>stdin\<close> and \<^verbatim>\<open>http\<close> and the output types \<^verbatim>\<open>http\<close>
  and \<^verbatim>\<open>stdout\<close>, whose sanitisers, encoders and writes all succeed.
\<close>

definition example_extern :: "(string, string, nat, string, nat, nat, unit, string) extern" where
  "example_extern =
     \<lparr>api_NewConfig = ''0.0.0.0:4195'',
      input_NewConfig = \<lparr>input_Type = ''stdin'', input_Processors = [''noop''], input_other = 0\<rparr>,
      buffer_NewConfig = ''none'',
      pipeline_NewConfig = \<lparr>pipeline_Processors = [], pipeline_other = 1\<rparr>,
      output_NewConfig =
        \<lparr>output_Type = ''stdout'', output_Processors = [''noop''], output_other = 0\<rparr>,
      processor_NewConfig = ''noop'',
      input_Constructors = [''stdin'' \<mapsto> (), ''http'' \<mapsto> ()],
      output_Constructors = [''http'' \<mapsto> (), ''stdout'' \<mapsto> ()],
      input_SanitiseConfig = (\<lambda>c. Inr (''in='' @ input_Type c)),
      buffer_SanitiseConfig = (\<lambda>b. Inr (''buf='' @ b)),
      pipeline_SanitiseConfig = (\<lambda>c. Inr (''procs='' @ concat (pipeline_Processors c))),
      output_SanitiseConfig = (\<lambda>c. Inr (''out='' @ output_Type c)),
      yaml_Marshal = (\<lambda>s. Inr (san_Input s @ '' '' @ san_Output s)),
      json_MarshalIndent = (\<lambda>s prefix indent.
        Inr (prefix @ ''{'' @ indent @ san_Input s @ '','' @ indent @ san_Output s @ ''}'')),
      filepath_Join = (\<lambda>dir file. dir @ ''/'' @ file),
      WriteFile_failure = (\<lambda>fs filename data. None)\<rparr>"

text \<open>The same library, but the input sanitiser rejects the type \<^verbatim>\<open>http\<close>.\<close>

definition failing_extern :: "(string, string, nat, string, nat, nat, unit, string) extern" where
  "failing_extern =
     example_extern\<lparr>input_SanitiseConfig :=
       (\<lambda>c. if input_Type c = ''http'' then Inl (Error ''invalid'')
            else Inr (''in='' @ input_Type c))\<rparr>"

text \<open>A world with no file and no event.\<close>

definition empty_world :: world where
  "empty_world = \<lparr>files = Map.empty, trace = []\<rparr>"

section \<open>Properties\<close>

subsection \<open>Auxiliary lemmas\<close>


lemma writes_append: "writes (xs @ ys) = writes xs @ writes ys"
  by (induction xs rule: writes.induct) simp_all

lemma writes_map_SanitiseConfig: "writes (map SanitiseConfig cs) = []"
  by (induction cs) simp_all

lemma replay_append: "replay (xs @ ys) fs = replay ys (replay xs fs)"
  by (simp add: replay_def)

lemma ioutil_WriteFile_ok:
  "ioutil_WriteFile ex p d m w = (None, w') \<Longrightarrow>
     WriteFile_failure ex (files w) p d = None \<and>
     w' = \<lparr>files = (files w)(p \<mapsto> d), trace = trace w @ [WriteFile p d m]\<rparr>"
  by (auto simp add: ioutil_WriteFile_def Let_def split: option.splits prod.splits)

lemma ioutil_WriteFile_trace:
  "trace (snd (ioutil_WriteFile ex p d m w)) = trace w @ [WriteFile p d m]"
  by (auto simp add: ioutil_WriteFile_def Let_def split: option.splits prod.splits)

lemma createYAML_ok:
  "createYAML ex t path sanit w = (None, w') \<Longrightarrow>
     \<exists>cBytes. yaml_Marshal ex sanit = Inr cBytes \<and>
       WriteFile_failure ex (files w) path (yaml_header @ cBytes) = None \<and>
       w' = \<lparr>files = (files w)(path \<mapsto> yaml_header @ cBytes),
             trace = trace w @ [WriteFile path (yaml_header @ cBytes) perm_0644,
               Printf (''Generated '' @ [CHR 0x27] @ t @ [CHR 0x27] @ '' config at: '' @ path
                 @ [CHR 0x0A])]\<rparr>"
  by (auto simp add: createYAML_def Let_def print_generated_def
      split: sum.splits option.splits prod.splits dest!: ioutil_WriteFile_ok)

lemma createJSON_ok:
  "createJSON ex t path sanit w = (None, w') \<Longrightarrow>
     \<exists>resBytes. json_MarshalIndent ex sanit [] [CHR 0x09] = Inr resBytes \<and>
       WriteFile_failure ex (files w) path resBytes = None \<and>
       w' = \<lparr>files = (files w)(path \<mapsto> resBytes),
             trace = trace w @ [WriteFile path resBytes perm_0644,
               Printf (''Generated '' @ [CHR 0x27] @ t @ [CHR 0x27] @ '' config at: '' @ path
                 @ [CHR 0x0A])]\<rparr>"
  by (auto simp add: createJSON_def Let_def print_generated_def
      split: sum.splits option.splits prod.splits dest!: ioutil_WriteFile_ok)

lemma loop_body_ok:
  assumes "loop_body ex dir t w = (None, w')"
  shows "\<exists>sanit y j. snd (Sanitised ex (type_config ex t)) = Inr sanit \<and>
      yaml_Marshal ex sanit = Inr y \<and> json_MarshalIndent ex sanit [] [CHR 0x09] = Inr j \<and>
      yaml_bytes ex t = Some (yaml_header @ y) \<and> json_bytes ex t = Some j \<and>
      files w' = (files w)(yaml_path ex dir t \<mapsto> yaml_header @ y, json_path ex dir t \<mapsto> j) \<and>
      writes (trace w') = writes (trace w) @
        [(yaml_path ex dir t, yaml_header @ y, perm_0644), (json_path ex dir t, j, perm_0644)]"
proof -
  obtain calls res where sr: "Sanitised ex (type_config ex t) = (calls, res)"
    by (cases "Sanitised ex (type_config ex t)")
  from assms sr obtain sanit where res: "res = Inr sanit"
    by (cases res) (auto simp add: loop_body_def Let_def)
  let ?w0 = "w\<lparr>trace := trace w @ map SanitiseConfig calls\<rparr>"
  from assms sr res obtain w1 where
    y: "createYAML ex t (yaml_path ex dir t) sanit ?w0 = (None, w1)" and
    j: "createJSON ex t (json_path ex dir t) sanit w1 = (None, w')"
    by (auto simp add: loop_body_def Let_def yaml_path_def json_path_def
        split: prod.splits option.splits)
  from createYAML_ok [OF y] obtain cBytes where
    cy: "yaml_Marshal ex sanit = Inr cBytes" and
    w1: "w1 = \<lparr>files = (files ?w0)(yaml_path ex dir t \<mapsto> yaml_header @ cBytes),
             trace = trace ?w0 @ [WriteFile (yaml_path ex dir t) (yaml_header @ cBytes) perm_0644,
               Printf (''Generated '' @ [CHR 0x27] @ t @ [CHR 0x27] @ '' config at: ''
                 @ yaml_path ex dir t @ [CHR 0x0A])]\<rparr>"
    by blast
  from createJSON_ok [OF j] obtain resBytes where
    cj: "json_MarshalIndent ex sanit [] [CHR 0x09] = Inr resBytes" and
    w': "w' = \<lparr>files = (files w1)(json_path ex dir t \<mapsto> resBytes),
             trace = trace w1 @ [WriteFile (json_path ex dir t) resBytes perm_0644,
               Printf (''Generated '' @ [CHR 0x27] @ t @ [CHR 0x27] @ '' config at: ''
                 @ json_path ex dir t @ [CHR 0x0A])]\<rparr>"
    by blast
  have "snd (Sanitised ex (type_config ex t)) = Inr sanit"
    using sr res by simp
  moreover have "yaml_bytes ex t = Some (yaml_header @ cBytes)"
    using sr res cy by (simp add: yaml_bytes_def)
  moreover have "json_bytes ex t = Some resBytes"
    using sr res cj by (simp add: json_bytes_def)
  moreover have "files w' = (files w)(yaml_path ex dir t \<mapsto> yaml_header @ cBytes,
      json_path ex dir t \<mapsto> resBytes)"
    using w1 w' by simp
  moreover have "writes (trace w') = writes (trace w) @
        [(yaml_path ex dir t, yaml_header @ cBytes, perm_0644),
         (json_path ex dir t, resBytes, perm_0644)]"
    using w1 w' by (simp add: writes_append writes_map_SanitiseConfig)
  ultimately show ?thesis using cy cj by blast
qed

lemma main_loop_append:
  "main_loop ex dir (xs @ ys) w =
     (case main_loop ex dir xs w of
        (Some err, w') \<Rightarrow> (Some err, w')
      | (None, w') \<Rightarrow> main_loop ex dir ys w')"
  by (induction xs arbitrary: w) (auto split: prod.splits option.splits)



lemma loop_body_writes:
  assumes "loop_body ex dir t w = (None, w')"
  shows "writes (trace w') = writes (trace w) @ body_writes ex dir t"
    and "files w' = replay (body_writes ex dir t) (files w)"
    and "map fst (body_writes ex dir t) = [yaml_path ex dir t, json_path ex dir t]"
    and "files w' = (files w)(yaml_path ex dir t := yaml_bytes ex t, json_path ex dir t := json_bytes ex t)"
  using loop_body_ok [OF assms] by (auto simp add: body_writes_def replay_def)

lemma main_loop_ok:
  "main_loop ex dir ts w = (None, w') \<Longrightarrow>
     writes (trace w') = writes (trace w) @ concat (map (body_writes ex dir) ts) \<and>
     files w' = replay (concat (map (body_writes ex dir) ts)) (files w) \<and>
     map fst (concat (map (body_writes ex dir) ts)) = out_paths ex dir ts"
proof (induction ts arbitrary: w)
  case Nil
  then show ?case by (simp add: replay_def out_paths_def)
next
  case (Cons t ts)
  from Cons.prems obtain w1 where
    b: "loop_body ex dir t w = (None, w1)" and r: "main_loop ex dir ts w1 = (None, w')"
    by (auto split: prod.splits option.splits)
  from Cons.IH [OF r] loop_body_writes [OF b] show ?case
    by (simp add: replay_append out_paths_def)
qed

lemma dom_replay: "dom (replay ws fs) = dom fs \<union> set (map fst ws)"
  unfolding replay_def by (induction ws arbitrary: fs) auto

lemma set_out_paths:
  "set (out_paths ex dir ts) = yaml_path ex dir ` set ts \<union> json_path ex dir ` set ts"
  by (auto simp add: out_paths_def)



lemma main_loop_files:
  "main_loop ex dir ts w = (None, w') \<Longrightarrow> distinct ts \<Longrightarrow> paths_distinct ex dir (set ts) \<Longrightarrow>
     (\<forall>t\<in>set ts. files w' (yaml_path ex dir t) = yaml_bytes ex t \<and>
                  files w' (json_path ex dir t) = json_bytes ex t) \<and>
     (\<forall>p. p \<notin> set (out_paths ex dir ts) \<longrightarrow> files w' p = files w p)"
proof (induction ts arbitrary: w)
  case Nil
  then show ?case by (simp add: out_paths_def)
next
  case (Cons t ts)
  from Cons.prems(1) obtain w1 where
    b: "loop_body ex dir t w = (None, w1)" and r: "main_loop ex dir ts w1 = (None, w')"
    by (auto split: prod.splits option.splits)
  have d: "distinct ts" and nt: "t \<notin> set ts" using Cons.prems(2) by simp_all
  have pd: "paths_distinct ex dir (set ts)"
    using Cons.prems(3) by (auto simp add: paths_distinct_def inj_on_def)
  note ih = Cons.IH [OF r d pd]
  have f1: "files w1 = (files w)(yaml_path ex dir t := yaml_bytes ex t,
      json_path ex dir t := json_bytes ex t)"
    by (rule loop_body_writes(4) [OF b])
  have ne: "yaml_path ex dir t \<noteq> json_path ex dir t"
    using Cons.prems(3) by (auto simp add: paths_distinct_def)
  have out: "yaml_path ex dir t \<notin> set (out_paths ex dir ts)"
            "json_path ex dir t \<notin> set (out_paths ex dir ts)"
    using Cons.prems(3) nt by (auto simp add: paths_distinct_def set_out_paths inj_on_def)
  show ?case
  proof (intro conjI ballI allI impI)
    fix u assume u: "u \<in> set (t # ts)"
    show "files w' (yaml_path ex dir u) = yaml_bytes ex u"
    proof (cases "u = t")
      case True
      then show ?thesis using ih out f1 ne by simp
    next
      case False
      then show ?thesis using ih u by simp
    qed
    show "files w' (json_path ex dir u) = json_bytes ex u"
    proof (cases "u = t")
      case True
      then show ?thesis using ih out f1 ne by simp
    next
      case False
      then show ?thesis using ih u by simp
    qed
  next
    fix p assume "p \<notin> set (out_paths ex dir (t # ts))"
    then have "p \<notin> set (out_paths ex dir ts)" "p \<noteq> yaml_path ex dir t" "p \<noteq> json_path ex dir t"
      by (auto simp add: out_paths_def)
    then show "files w' p = files w p" using ih f1 by simp
  qed
qed

lemma main_loop_files_eq:
  assumes "main_loop ex dir ts w = (None, w')" "main_loop ex dir ts' v = (None, v')"
    "distinct ts" "distinct ts'" "set ts = set ts'" "paths_distinct ex dir (set ts)"
    "\<forall>p. p \<notin> set (out_paths ex dir ts) \<longrightarrow> files v p = files w p"
  shows "files v' = files w'"
proof
  fix p
  note a = main_loop_files [OF assms(1) assms(3) assms(6)]
  have pd': "paths_distinct ex dir (set ts')" using assms(5,6) by simp
  note b = main_loop_files [OF assms(2) assms(4) pd']
  have s: "set (out_paths ex dir ts') = set (out_paths ex dir ts)"
    using assms(5) by (simp add: set_out_paths)
  show "files v' p = files w' p"
  proof (cases "p \<in> set (out_paths ex dir ts)")
    case True
    then obtain t where "t \<in> set ts" "p = yaml_path ex dir t \<or> p = json_path ex dir t"
      by (auto simp add: set_out_paths)
    then show ?thesis using a b assms(5) by auto
  next
    case False
    then show ?thesis using a b s assms(7) by simp
  qed
qed

lemma dom_typeMap: "dom (typeMap ins outs) = set ins \<union> set outs"
proof -
  have "dom (fold (\<lambda>t m. m(t \<mapsto> ())) ks m) = dom m \<union> set ks" for ks and m :: "string \<rightharpoonup> unit"
    by (induction ks arbitrary: m) auto
  then show ?thesis by (auto simp add: typeMap_def)
qed

lemma main_orders_names:
  "main_orders ex ins outs ts \<Longrightarrow>
     distinct ts \<and> set ts = dom (input_Constructors ex) \<union> dom (output_Constructors ex)"
  by (simp add: main_orders_def range_order_def dom_typeMap)

lemmas ev = main_def loop_body_def Sanitised_def type_config_def NewConfig_def createYAML_def
  createJSON_def ioutil_WriteFile_def print_generated_def yaml_header_def example_extern_def
  failing_extern_def empty_world_def Let_def perm_0644_def

lemma main_abort:
  "main ex dir pre w = (None, w1) \<Longrightarrow> loop_body ex dir t w1 = (Some err, w2) \<Longrightarrow>
     main ex dir (pre @ t # post) w = (Some err, w2)"
  by (simp add: main_def main_loop_append)

lemma loop_body_sanitise_error:
  "snd (Sanitised ex (type_config ex t)) = Inl err \<Longrightarrow>
     \<exists>w'. loop_body ex dir t w = (Some err, w') \<and> files w' = files w \<and>
       writes (trace w') = writes (trace w)"
  by (cases "Sanitised ex (type_config ex t)")
     (simp add: loop_body_def Let_def writes_append writes_map_SanitiseConfig)

lemma loop_body_first_error:
  "fst (loop_body ex dir t w) = Some err \<longleftrightarrow>
     (case snd (Sanitised ex (type_config ex t)) of
        Inl e \<Rightarrow> e = err
      | Inr sanit \<Rightarrow>
     (case yaml_Marshal ex sanit of
        Inl e \<Rightarrow> e = err
      | Inr y \<Rightarrow>
     (case WriteFile_failure ex (files w) (filepath_Join ex dir (t @ ''.yaml'')) (yaml_header @ y) of
        Some (e, left) \<Rightarrow> e = err
      | None \<Rightarrow>
     (case json_MarshalIndent ex sanit [] [CHR 0x09] of
        Inl e \<Rightarrow> e = err
      | Inr j \<Rightarrow>
     (case WriteFile_failure ex ((files w)(filepath_Join ex dir (t @ ''.yaml'') \<mapsto> yaml_header @ y))
             (filepath_Join ex dir (t @ ''.json'')) j of
        Some (e, left) \<Rightarrow> e = err
      | None \<Rightarrow> False)))))"
  by (cases "Sanitised ex (type_config ex t)")
     (auto simp add: loop_body_def createYAML_def createJSON_def ioutil_WriteFile_def
       print_generated_def Let_def split: sum.splits option.splits prod.splits)

lemma main_file_contents:
  assumes "main ex dir ts w = (None, w')" and "distinct ts" and "paths_distinct ex dir (set ts)"
    and "t \<in> set ts"
  shows "\<exists>sanit cBytes resBytes. snd (Sanitised ex (type_config ex t)) = Inr sanit \<and>
     yaml_Marshal ex sanit = Inr cBytes \<and>
     json_MarshalIndent ex sanit [] [CHR 0x09] = Inr resBytes \<and>
     files w' (filepath_Join ex dir (t @ ''.yaml'')) = Some (yaml_header @ cBytes) \<and>
     files w' (filepath_Join ex dir (t @ ''.json'')) = Some resBytes"
proof -
  from assms(1) have r: "main_loop ex dir ts w = (None, w')"
    by (simp add: main_def)
  from assms(4) obtain xs ys where ts: "ts = xs @ t # ys"
    by (auto simp add: in_set_conv_decomp)
  from r ts obtain w1 w2 where "loop_body ex dir t w1 = (None, w2)"
    by (auto simp add: main_loop_append split: prod.splits option.splits)
  from loop_body_ok [OF this] obtain sanit y j where
    s: "snd (Sanitised ex (type_config ex t)) = Inr sanit" "yaml_Marshal ex sanit = Inr y"
      "json_MarshalIndent ex sanit [] [CHR 0x09] = Inr j"
      "yaml_bytes ex t = Some (yaml_header @ y)" "json_bytes ex t = Some j"
    by blast
  from main_loop_files [OF r assms(2,3)] assms(4)
  have "files w' (yaml_path ex dir t) = yaml_bytes ex t"
    "files w' (json_path ex dir t) = json_bytes ex t"
    by simp_all
  with s show ?thesis by (simp add: yaml_path_def json_path_def)
qed

lemma example_paths_distinct:
  "paths_distinct example_extern ''./config'' (set [''http'', ''stdout'', ''stdin''])"
  by (simp add: paths_distinct_def yaml_path_def json_path_def example_extern_def)

lemma example_run:
  "fst (main example_extern ''./config'' [''http'', ''stdout'', ''stdin''] empty_world) = None"
  by (simp add: ev)

lemma createYAML_trace:
  "\<exists>evs. trace (snd (createYAML ex t path sanit w)) = trace w @ evs \<and>
     (\<forall>p d m. WriteFile p d m \<in> set evs \<longrightarrow> m = perm_0644)"
  by (auto simp add: createYAML_def ioutil_WriteFile_def print_generated_def Let_def
      split: sum.splits option.splits prod.splits)

lemma createJSON_trace:
  "\<exists>evs. trace (snd (createJSON ex t path sanit w)) = trace w @ evs \<and>
     (\<forall>p d m. WriteFile p d m \<in> set evs \<longrightarrow> m = perm_0644)"
  by (auto simp add: createJSON_def ioutil_WriteFile_def print_generated_def Let_def
      split: sum.splits option.splits prod.splits)

lemma loop_body_trace:
  "\<exists>evs. trace (snd (loop_body ex dir t w)) = trace w @ evs \<and>
     (\<forall>p d m. WriteFile p d m \<in> set evs \<longrightarrow> m = perm_0644)"
proof -
  obtain calls res where sr: "Sanitised ex (type_config ex t) = (calls, res)"
    by (cases "Sanitised ex (type_config ex t)")
  let ?w0 = "w\<lparr>trace := trace w @ map SanitiseConfig calls\<rparr>"
  show ?thesis
  proof (cases res)
    case (Inl err)
    with sr have "trace (snd (loop_body ex dir t w)) = trace w @ map SanitiseConfig calls"
      by (simp add: loop_body_def Let_def)
    then show ?thesis by auto
  next
    case (Inr sanit)
    let ?y = "createYAML ex t (filepath_Join ex dir (t @ ''.yaml'')) sanit ?w0"
    from createYAML_trace [of ex t "filepath_Join ex dir (t @ ''.yaml'')" sanit ?w0]
    obtain e1 where e1: "trace (snd ?y) = trace ?w0 @ e1"
      "\<forall>p d m. WriteFile p d m \<in> set e1 \<longrightarrow> m = perm_0644"
      by blast
    show ?thesis
    proof (cases "fst ?y")
      case (Some err)
      with sr Inr have "loop_body ex dir t w = (Some err, snd ?y)"
        by (auto simp add: loop_body_def Let_def split: prod.splits)
      with e1 have "trace (snd (loop_body ex dir t w)) = trace w @ (map SanitiseConfig calls @ e1)"
        by simp
      moreover have "\<forall>p d m. WriteFile p d m \<in> set (map SanitiseConfig calls @ e1)
          \<longrightarrow> m = perm_0644"
        using e1(2) by auto
      ultimately show ?thesis by blast
    next
      case None
      let ?j = "createJSON ex t (filepath_Join ex dir (t @ ''.json'')) sanit (snd ?y)"
      from None sr Inr have lb: "loop_body ex dir t w = ?j"
        by (auto simp add: loop_body_def Let_def split: prod.splits)
      from createJSON_trace [of ex t "filepath_Join ex dir (t @ ''.json'')" sanit "snd ?y"]
      obtain e2 where e2: "trace (snd ?j) = trace (snd ?y) @ e2"
        "\<forall>p d m. WriteFile p d m \<in> set e2 \<longrightarrow> m = perm_0644"
        by blast
      from lb e1 e2 have "trace (snd (loop_body ex dir t w))
          = trace w @ (map SanitiseConfig calls @ e1 @ e2)"
        by simp
      moreover have "\<forall>p d m. WriteFile p d m \<in> set (map SanitiseConfig calls @ e1 @ e2)
          \<longrightarrow> m = perm_0644"
        using e1(2) e2(2) by auto
      ultimately show ?thesis by blast
    qed
  qed
qed

lemma main_loop_trace:
  "\<exists>evs. trace (snd (main_loop ex dir ts w)) = trace w @ evs \<and>
     (\<forall>p d m. WriteFile p d m \<in> set evs \<longrightarrow> m = perm_0644)"
proof (induction ts arbitrary: w)
  case Nil
  then show ?case by simp
next
  case (Cons t ts)
  from loop_body_trace [of ex dir t w] obtain e1 where
    e1: "trace (snd (loop_body ex dir t w)) = trace w @ e1"
      "\<forall>p d m. WriteFile p d m \<in> set e1 \<longrightarrow> m = perm_0644"
    by blast
  show ?case
  proof (cases "fst (loop_body ex dir t w)")
    case (Some err)
    then have "main_loop ex dir (t # ts) w = (Some err, snd (loop_body ex dir t w))"
      by (auto split: prod.splits)
    with e1 show ?thesis by auto
  next
    case None
    then have m: "main_loop ex dir (t # ts) w = main_loop ex dir ts (snd (loop_body ex dir t w))"
      by (auto split: prod.splits)
    from Cons.IH [of "snd (loop_body ex dir t w)"] obtain e2 where
      e2: "trace (snd (main_loop ex dir ts (snd (loop_body ex dir t w))))
          = trace (snd (loop_body ex dir t w)) @ e2"
        "\<forall>p d m. WriteFile p d m \<in> set e2 \<longrightarrow> m = perm_0644"
      by blast
    from m e1 e2 have "trace (snd (main_loop ex dir (t # ts) w)) = trace w @ (e1 @ e2)"
      by simp
    moreover have "\<forall>p d m. WriteFile p d m \<in> set (e1 @ e2) \<longrightarrow> m = perm_0644"
      using e1(2) e2(2) by auto
    ultimately show ?thesis by blast
  qed
qed

lemma createYAML_requests_write:
  "yaml_Marshal ex sanit = Inr cBytes \<Longrightarrow>
     \<exists>evs. trace (snd (createYAML ex t path sanit w)) =
       trace w @ WriteFile path (yaml_header @ cBytes) perm_0644 # evs"
  by (auto simp add: createYAML_def ioutil_WriteFile_def print_generated_def Let_def
      split: sum.splits option.splits prod.splits)

lemma createJSON_requests_write:
  "json_MarshalIndent ex sanit [] [CHR 0x09] = Inr resBytes \<Longrightarrow>
     \<exists>evs. trace (snd (createJSON ex t path sanit w)) =
       trace w @ WriteFile path resBytes perm_0644 # evs"
  by (auto simp add: createJSON_def ioutil_WriteFile_def print_generated_def Let_def
      split: sum.splits option.splits prod.splits)

subsection \<open>Claims\<close>

text \<open>
  C1. Every error of a run ends it at once, with that error. If the loop body of a type
  name panics after the names before it went through, \<^verbatim>\<open>main\<close> ends with that error and
  that world, whatever names come after. If sanitising the configuration of a type name
  fails, the loop body ends with that error, the file system is as before and no write was
  requested. The error of a loop body is the first one among: sanitising, encoding as YAML,
  writing the YAML file, encoding as JSON, writing the JSON file.
\<close>

theorem main_fail_fast:
  "(main ex dir pre w = (None, w1) \<and> loop_body ex dir t w1 = (Some err, w2) \<longrightarrow>
      main ex dir (pre @ t # post) w = (Some err, w2)) \<and>
   (snd (Sanitised ex (type_config ex t)) = Inl err \<longrightarrow>
      (\<exists>w'. loop_body ex dir t w = (Some err, w') \<and> files w' = files w \<and>
         writes (trace w') = writes (trace w))) \<and>
   (fst (loop_body ex dir t w) = Some err \<longleftrightarrow>
     (case snd (Sanitised ex (type_config ex t)) of
        Inl e \<Rightarrow> e = err
      | Inr sanit \<Rightarrow>
     (case yaml_Marshal ex sanit of
        Inl e \<Rightarrow> e = err
      | Inr y \<Rightarrow>
     (case WriteFile_failure ex (files w) (filepath_Join ex dir (t @ ''.yaml'')) (yaml_header @ y) of
        Some (e, left) \<Rightarrow> e = err
      | None \<Rightarrow>
     (case json_MarshalIndent ex sanit [] [CHR 0x09] of
        Inl e \<Rightarrow> e = err
      | Inr j \<Rightarrow>
     (case WriteFile_failure ex ((files w)(filepath_Join ex dir (t @ ''.yaml'') \<mapsto> yaml_header @ y))
             (filepath_Join ex dir (t @ ''.json'')) j of
        Some (e, left) \<Rightarrow> e = err
      | None \<Rightarrow> False))))))"
  using main_abort [of ex dir pre w w1 t err w2 post]
    loop_body_sanitise_error [of ex t err dir w]
    loop_body_first_error [of ex dir t w err]
  by blast

theorem main_fail_fast_witness:
  "fst (main failing_extern ''./config'' [''stdin''] empty_world) = None \<and>
   snd (Sanitised failing_extern (type_config failing_extern ''http'')) = Inl (Error ''invalid'') \<and>
   fst (main failing_extern ''./config'' [''stdin'', ''http'', ''stdout''] empty_world)
     = Some (Error ''invalid'') \<and>
   dom (files (snd (main failing_extern ''./config'' [''stdin'', ''http'', ''stdout''] empty_world)))
     = {''./config/stdin.yaml'', ''./config/stdin.json''}"
proof -
  let ?w1 = "snd (main failing_extern ''./config'' [''stdin''] empty_world)"
  let ?w2 = "snd (loop_body failing_extern ''./config'' ''http'' ?w1)"
  have h0: "fst (main failing_extern ''./config'' [''stdin''] empty_world) = None"
    by (simp add: ev)
  then have h1: "main failing_extern ''./config'' [''stdin''] empty_world = (None, ?w1)"
    by (simp add: prod_eq_iff)
  have h2: "snd (Sanitised failing_extern (type_config failing_extern ''http''))
      = Inl (Error ''invalid'')"
    by (simp add: ev)
  from main_fail_fast [where ex = failing_extern and dir = "''./config''" and t = "''http''"
      and err = "Error ''invalid''" and w = ?w1] h2
  obtain w' where b: "loop_body failing_extern ''./config'' ''http'' ?w1 = (Some (Error ''invalid''), w')"
    and f: "files w' = files ?w1"
    by blast
  from b have h3: "loop_body failing_extern ''./config'' ''http'' ?w1 = (Some (Error ''invalid''), ?w2)"
    by simp
  from main_fail_fast [where ex = failing_extern and dir = "''./config''" and pre = "[''stdin'']"
      and w = empty_world and ?w1.0 = ?w1 and t = "''http''" and err = "Error ''invalid''"
      and ?w2.0 = ?w2 and post = "[''stdout'']"] h1 h3
  have m: "main failing_extern ''./config'' ([''stdin''] @ ''http'' # [''stdout'']) empty_world
      = (Some (Error ''invalid''), ?w2)"
    by blast
  have d: "dom (files ?w1) = {''./config/stdin.yaml'', ''./config/stdin.json''}"
    by (auto simp add: ev)
  from b f have "files ?w2 = files ?w1" by simp
  with m d h0 h2 show ?thesis by simp
qed

text \<open>
  C2. Let the three loops of \<^verbatim>\<open>main\<close> visit the registries and \<^verbatim>\<open>typeMap\<close> in any
  orders, let the file system be empty at the start and let the run end without an error.
  Then the loop visits every type name of the input or the output registry exactly once,
  the files present at the end are exactly the files \<^verbatim>\<open>Join(dir, name + ".yaml")\<close> and
  \<^verbatim>\<open>Join(dir, name + ".json")\<close> of these names, and the writes requested are these two
  per name, in the order of the loop.
\<close>

theorem main_produces_files:
  assumes "main_orders ex ins outs ts" and "files w = Map.empty"
    and "main ex dir ts w = (None, w')"
  shows "distinct ts \<and>
     set ts = dom (input_Constructors ex) \<union> dom (output_Constructors ex) \<and>
     dom (files w') =
       (\<Union>t \<in> dom (input_Constructors ex) \<union> dom (output_Constructors ex).
          {filepath_Join ex dir (t @ ''.yaml''), filepath_Join ex dir (t @ ''.json'')}) \<and>
     map fst (writes (trace w')) = map fst (writes (trace w)) @
       concat (map (\<lambda>t. [filepath_Join ex dir (t @ ''.yaml''),
                          filepath_Join ex dir (t @ ''.json'')]) ts)"
proof -
  note n = main_orders_names [OF assms(1)]
  from assms(3) have r: "main_loop ex dir ts w = (None, w')"
    by (simp add: main_def)
  note ok = main_loop_ok [OF r]
  have "dom (files w') = set (out_paths ex dir ts)"
    using ok assms(2) by (simp add: dom_replay)
  also have "\<dots> = (\<Union>t \<in> set ts.
          {filepath_Join ex dir (t @ ''.yaml''), filepath_Join ex dir (t @ ''.json'')})"
    by (auto simp add: out_paths_def yaml_path_def json_path_def)
  finally have d: "dom (files w') = (\<Union>t \<in> set ts.
          {filepath_Join ex dir (t @ ''.yaml''), filepath_Join ex dir (t @ ''.json'')})" .
  have "map fst (writes (trace w')) = map fst (writes (trace w)) @ out_paths ex dir ts"
    using ok by simp
  then have p: "map fst (writes (trace w')) = map fst (writes (trace w)) @
       concat (map (\<lambda>t. [filepath_Join ex dir (t @ ''.yaml''),
                          filepath_Join ex dir (t @ ''.json'')]) ts)"
    by (simp add: out_paths_def yaml_path_def json_path_def)
  from n d p show ?thesis by simp
qed

theorem main_produces_files_witness:
  "main_orders example_extern [''stdin'', ''http''] [''stdout'', ''http'']
     [''http'', ''stdout'', ''stdin''] \<and>
   files empty_world = Map.empty \<and>
   fst (main example_extern ''./config'' [''http'', ''stdout'', ''stdin''] empty_world) = None \<and>
   dom (files (snd (main example_extern ''./config'' [''http'', ''stdout'', ''stdin'']
      empty_world))) =
     {''./config/http.yaml'', ''./config/http.json'', ''./config/stdout.yaml'',
      ''./config/stdout.json'', ''./config/stdin.yaml'', ''./config/stdin.json''} \<and>
   map fst (writes (trace (snd (main example_extern ''./config'' [''http'', ''stdout'', ''stdin'']
      empty_world)))) =
     [''./config/http.yaml'', ''./config/http.json'', ''./config/stdout.yaml'',
      ''./config/stdout.json'', ''./config/stdin.yaml'', ''./config/stdin.json'']"
proof -
  let ?ts = "[''http'', ''stdout'', ''stdin'']"
  let ?w' = "snd (main example_extern ''./config'' ?ts empty_world)"
  have h1: "main_orders example_extern [''stdin'', ''http''] [''stdout'', ''http''] ?ts"
    by (auto simp add: main_orders_def range_order_def typeMap_def example_extern_def)
  have h2: "files empty_world = Map.empty"
    by (simp add: empty_world_def)
  have h0: "fst (main example_extern ''./config'' ?ts empty_world) = None"
    by (simp add: ev)
  then have h3: "main example_extern ''./config'' ?ts empty_world = (None, ?w')"
    by (simp add: prod_eq_iff)
  have j: "filepath_Join example_extern = (\<lambda>dir file. dir @ ''/'' @ file)"
    by (simp add: example_extern_def)
  have t0: "trace empty_world = []"
    by (simp add: empty_world_def)
  have dm: "dom (input_Constructors example_extern) \<union> dom (output_Constructors example_extern)
      = {''stdin'', ''http'', ''stdout''}"
    by (auto simp add: example_extern_def)
  from main_produces_files [OF h1 h2 h3]
  have "dom (files ?w') =
       (\<Union>t \<in> {''stdin'', ''http'', ''stdout''}.
          {''./config'' @ ''/'' @ t @ ''.yaml'', ''./config'' @ ''/'' @ t @ ''.json''})"
    and "map fst (writes (trace ?w')) =
       concat (map (\<lambda>t. [''./config'' @ ''/'' @ t @ ''.yaml'',
                          ''./config'' @ ''/'' @ t @ ''.json'']) ?ts)"
    unfolding j dm t0 by simp_all
  then have "dom (files ?w') = {''./config/http.yaml'', ''./config/http.json'', ''./config/stdout.yaml'',
      ''./config/stdout.json'', ''./config/stdin.yaml'', ''./config/stdin.json''}"
    and "map fst (writes (trace ?w')) = [''./config/http.yaml'', ''./config/http.json'', ''./config/stdout.yaml'',
      ''./config/stdout.json'', ''./config/stdin.yaml'', ''./config/stdin.json'']"
    by auto
  with h1 h2 h0 show ?thesis by simp
qed





text \<open>
  C5. \<^verbatim>\<open>Sanitised\<close> calls the sanitisers of the input, buffer, pipeline and output section
  in this order. The first one that fails ends it: the result is that error and no struct,
  and the sanitisers after it are not called. When all four succeed, the result is the
  struct with the \<^verbatim>\<open>HTTP\<close> field of the configuration, unchanged, and the four results.
\<close>

theorem Sanitised_first_failure:
  "(\<forall>err. input_SanitiseConfig ex (Input c) = Inl err \<longrightarrow> Sanitised ex c = ([SecInput], Inl err)) \<and>
   (\<forall>inConf err. input_SanitiseConfig ex (Input c) = Inr inConf \<and>
        buffer_SanitiseConfig ex (Buffer c) = Inl err \<longrightarrow>
        Sanitised ex c = ([SecInput, SecBuffer], Inl err)) \<and>
   (\<forall>inConf bufConf err. input_SanitiseConfig ex (Input c) = Inr inConf \<and>
        buffer_SanitiseConfig ex (Buffer c) = Inr bufConf \<and>
        pipeline_SanitiseConfig ex (Pipeline c) = Inl err \<longrightarrow>
        Sanitised ex c = ([SecInput, SecBuffer, SecPipeline], Inl err)) \<and>
   (\<forall>inConf bufConf pipeConf err. input_SanitiseConfig ex (Input c) = Inr inConf \<and>
        buffer_SanitiseConfig ex (Buffer c) = Inr bufConf \<and>
        pipeline_SanitiseConfig ex (Pipeline c) = Inr pipeConf \<and>
        output_SanitiseConfig ex (Output c) = Inl err \<longrightarrow>
        Sanitised ex c = ([SecInput, SecBuffer, SecPipeline, SecOutput], Inl err)) \<and>
   (\<forall>inConf bufConf pipeConf outConf. input_SanitiseConfig ex (Input c) = Inr inConf \<and>
        buffer_SanitiseConfig ex (Buffer c) = Inr bufConf \<and>
        pipeline_SanitiseConfig ex (Pipeline c) = Inr pipeConf \<and>
        output_SanitiseConfig ex (Output c) = Inr outConf \<longrightarrow>
        Sanitised ex c = ([SecInput, SecBuffer, SecPipeline, SecOutput],
          Inr \<lparr>san_HTTP = HTTP c, san_Input = inConf, san_Buffer = bufConf,
               san_Pipeline = pipeConf, san_Output = outConf\<rparr>))"
  by (simp add: Sanitised_def)

theorem Sanitised_first_failure_witness:
  "Sanitised example_extern (NewConfig example_extern) =
     ([SecInput, SecBuffer, SecPipeline, SecOutput],
      Inr \<lparr>san_HTTP = ''0.0.0.0:4195'', san_Input = ''in=stdin'', san_Buffer = ''buf=none'',
           san_Pipeline = ''procs='', san_Output = ''out=stdout''\<rparr>) \<and>
   Sanitised (example_extern\<lparr>input_SanitiseConfig := \<lambda>c. Inl (Error ''input'')\<rparr>)
       (NewConfig example_extern) = ([SecInput], Inl (Error ''input'')) \<and>
   Sanitised (example_extern\<lparr>buffer_SanitiseConfig := \<lambda>c. Inl (Error ''buffer'')\<rparr>)
       (NewConfig example_extern) = ([SecInput, SecBuffer], Inl (Error ''buffer'')) \<and>
   Sanitised (example_extern\<lparr>pipeline_SanitiseConfig := \<lambda>c. Inl (Error ''pipeline''),
         output_SanitiseConfig := \<lambda>c. Inl (Error ''output'')\<rparr>)
       (NewConfig example_extern) = ([SecInput, SecBuffer, SecPipeline], Inl (Error ''pipeline'')) \<and>
   Sanitised (example_extern\<lparr>output_SanitiseConfig := \<lambda>c. Inl (Error ''output'')\<rparr>)
       (NewConfig example_extern) =
     ([SecInput, SecBuffer, SecPipeline, SecOutput], Inl (Error ''output''))"
proof -
  let ?c = "NewConfig example_extern"
  let ?e1 = "example_extern\<lparr>input_SanitiseConfig := \<lambda>c. Inl (Error ''input'')\<rparr>"
  let ?e2 = "example_extern\<lparr>buffer_SanitiseConfig := \<lambda>c. Inl (Error ''buffer'')\<rparr>"
  let ?e3 = "example_extern\<lparr>pipeline_SanitiseConfig := \<lambda>c. Inl (Error ''pipeline''),
         output_SanitiseConfig := \<lambda>c. Inl (Error ''output'')\<rparr>"
  let ?e4 = "example_extern\<lparr>output_SanitiseConfig := \<lambda>c. Inl (Error ''output'')\<rparr>"
  have c: "HTTP ?c = ''0.0.0.0:4195''"
    by (simp add: NewConfig_def example_extern_def)
  have i: "input_SanitiseConfig example_extern (Input ?c) = Inr ''in=stdin''"
    "input_SanitiseConfig ?e1 (Input ?c) = Inl (Error ''input'')"
    "input_SanitiseConfig ?e2 (Input ?c) = Inr ''in=stdin''"
    "input_SanitiseConfig ?e3 (Input ?c) = Inr ''in=stdin''"
    "input_SanitiseConfig ?e4 (Input ?c) = Inr ''in=stdin''"
    by (simp_all add: NewConfig_def example_extern_def)
  have b: "buffer_SanitiseConfig example_extern (Buffer ?c) = Inr ''buf=none''"
    "buffer_SanitiseConfig ?e2 (Buffer ?c) = Inl (Error ''buffer'')"
    "buffer_SanitiseConfig ?e3 (Buffer ?c) = Inr ''buf=none''"
    "buffer_SanitiseConfig ?e4 (Buffer ?c) = Inr ''buf=none''"
    by (simp_all add: NewConfig_def example_extern_def)
  have p: "pipeline_SanitiseConfig example_extern (Pipeline ?c) = Inr ''procs=''"
    "pipeline_SanitiseConfig ?e3 (Pipeline ?c) = Inl (Error ''pipeline'')"
    "pipeline_SanitiseConfig ?e4 (Pipeline ?c) = Inr ''procs=''"
    by (simp_all add: NewConfig_def example_extern_def)
  have out: "output_SanitiseConfig example_extern (Output ?c) = Inr ''out=stdout''"
    "output_SanitiseConfig ?e4 (Output ?c) = Inl (Error ''output'')"
    by (simp_all add: NewConfig_def example_extern_def)
  from Sanitised_first_failure [of example_extern ?c] Sanitised_first_failure [of ?e1 ?c]
    Sanitised_first_failure [of ?e2 ?c] Sanitised_first_failure [of ?e3 ?c]
    Sanitised_first_failure [of ?e4 ?c] c i b p out
  show ?thesis by simp
qed

text \<open>
  C6. A YAML file that \<^verbatim>\<open>createYAML\<close> has written holds the header line, a newline and
  then what \<^verbatim>\<open>yaml.Marshal\<close> returned for the sanitised configuration. After a run of
  \<^verbatim>\<open>main\<close> without an error, over names whose files have different file names, this is
  the content of the YAML file of every name, for the sanitised configuration of that name.
\<close>

theorem yaml_file_content:
  "(createYAML ex t path sanit w = (None, w') \<longrightarrow>
      (\<exists>cBytes. yaml_Marshal ex sanit = Inr cBytes \<and>
         files w' path =
           Some (''# This file was auto generated by benthos_config_gen.'' @ [CHR 0x0A] @ cBytes))) \<and>
   (main ex dir ts w = (None, w') \<and> distinct ts \<and> paths_distinct ex dir (set ts) \<and> t \<in> set ts \<longrightarrow>
      (\<exists>sanit cBytes. snd (Sanitised ex (type_config ex t)) = Inr sanit \<and>
         yaml_Marshal ex sanit = Inr cBytes \<and>
         files w' (filepath_Join ex dir (t @ ''.yaml'')) =
           Some (''# This file was auto generated by benthos_config_gen.'' @ [CHR 0x0A] @ cBytes)))"
proof (intro conjI impI)
  assume "createYAML ex t path sanit w = (None, w')"
  from createYAML_ok [OF this]
  show "\<exists>cBytes. yaml_Marshal ex sanit = Inr cBytes \<and>
         files w' path =
           Some (''# This file was auto generated by benthos_config_gen.'' @ [CHR 0x0A] @ cBytes)"
    by (auto simp add: yaml_header_def)
next
  assume a: "main ex dir ts w = (None, w') \<and> distinct ts \<and> paths_distinct ex dir (set ts) \<and> t \<in> set ts"
  then have "\<exists>sanit cBytes resBytes. snd (Sanitised ex (type_config ex t)) = Inr sanit \<and>
     yaml_Marshal ex sanit = Inr cBytes \<and>
     json_MarshalIndent ex sanit [] [CHR 0x09] = Inr resBytes \<and>
     files w' (filepath_Join ex dir (t @ ''.yaml'')) = Some (yaml_header @ cBytes) \<and>
     files w' (filepath_Join ex dir (t @ ''.json'')) = Some resBytes"
    using main_file_contents [of ex dir ts w w' t] by blast
  then show "\<exists>sanit cBytes. snd (Sanitised ex (type_config ex t)) = Inr sanit \<and>
         yaml_Marshal ex sanit = Inr cBytes \<and>
         files w' (filepath_Join ex dir (t @ ''.yaml'')) =
           Some (''# This file was auto generated by benthos_config_gen.'' @ [CHR 0x0A] @ cBytes)"
    by (auto simp add: yaml_header_def)
qed

theorem yaml_file_content_witness:
  "fst (main example_extern ''./config'' [''http'', ''stdout'', ''stdin''] empty_world) = None \<and>
   distinct [''http'', ''stdout'', ''stdin''] \<and>
   paths_distinct example_extern ''./config'' (set [''http'', ''stdout'', ''stdin'']) \<and>
   ''http'' \<in> set [''http'', ''stdout'', ''stdin''] \<and>
   files (snd (main example_extern ''./config'' [''http'', ''stdout'', ''stdin''] empty_world))
       ''./config/http.yaml'' =
     Some (''# This file was auto generated by benthos_config_gen.'' @ [CHR 0x0A] @
           ''in=http out=http'')"
proof -
  let ?ts = "[''http'', ''stdout'', ''stdin'']"
  let ?w' = "snd (main example_extern ''./config'' ?ts empty_world)"
  have h1: "main example_extern ''./config'' ?ts empty_world = (None, ?w')"
    using example_run by (simp add: prod_eq_iff)
  have h2: "distinct ?ts" and h4: "''http'' \<in> set ?ts" by simp_all
  note h3 = example_paths_distinct
  have s: "snd (Sanitised example_extern (type_config example_extern ''http'')) =
      Inr \<lparr>san_HTTP = ''0.0.0.0:4195'', san_Input = ''in=http'', san_Buffer = ''buf=none'',
           san_Pipeline = ''procs=noop'', san_Output = ''out=http''\<rparr>"
    by (simp add: ev)
  have y: "yaml_Marshal example_extern
      \<lparr>san_HTTP = ''0.0.0.0:4195'', san_Input = ''in=http'', san_Buffer = ''buf=none'',
       san_Pipeline = ''procs=noop'', san_Output = ''out=http''\<rparr> = Inr ''in=http out=http''"
    by (simp add: example_extern_def)
  have j: "filepath_Join example_extern ''./config'' (''http'' @ ''.yaml'') = ''./config/http.yaml''"
    by (simp add: example_extern_def)
  from yaml_file_content [THEN conjunct2, rule_format, of example_extern "''./config''" ?ts
      empty_world ?w' "''http''"] h1 h2 h3 h4
  obtain sanit cBytes where
    "snd (Sanitised example_extern (type_config example_extern ''http'')) = Inr sanit"
    "yaml_Marshal example_extern sanit = Inr cBytes"
    "files ?w' (filepath_Join example_extern ''./config'' (''http'' @ ''.yaml'')) =
       Some (''# This file was auto generated by benthos_config_gen.'' @ [CHR 0x0A] @ cBytes)"
    by blast
  with s y j have "files ?w' ''./config/http.yaml'' =
     Some (''# This file was auto generated by benthos_config_gen.'' @ [CHR 0x0A] @
           ''in=http out=http'')"
    by auto
  with example_run h2 h3 h4 show ?thesis by simp
qed

text \<open>
  C7. A JSON file that \<^verbatim>\<open>createJSON\<close> has written holds exactly what
  \<^verbatim>\<open>json.MarshalIndent\<close> returned for the sanitised configuration, with the empty prefix
  and one tab as the indent, and nothing before it. After a run of \<^verbatim>\<open>main\<close> without an
  error, over names whose files have different file names, this is the content of the JSON
  file of every name, for the sanitised configuration of that name.
\<close>

theorem json_file_content:
  "(createJSON ex t path sanit w = (None, w') \<longrightarrow>
      (\<exists>resBytes. json_MarshalIndent ex sanit [] [CHR 0x09] = Inr resBytes \<and>
         files w' path = Some resBytes)) \<and>
   (main ex dir ts w = (None, w') \<and> distinct ts \<and> paths_distinct ex dir (set ts) \<and> t \<in> set ts \<longrightarrow>
      (\<exists>sanit resBytes. snd (Sanitised ex (type_config ex t)) = Inr sanit \<and>
         json_MarshalIndent ex sanit [] [CHR 0x09] = Inr resBytes \<and>
         files w' (filepath_Join ex dir (t @ ''.json'')) = Some resBytes))"
proof (intro conjI impI)
  assume "createJSON ex t path sanit w = (None, w')"
  from createJSON_ok [OF this]
  show "\<exists>resBytes. json_MarshalIndent ex sanit [] [CHR 0x09] = Inr resBytes \<and>
         files w' path = Some resBytes"
    by auto
next
  assume a: "main ex dir ts w = (None, w') \<and> distinct ts \<and> paths_distinct ex dir (set ts) \<and> t \<in> set ts"
  then have "\<exists>sanit cBytes resBytes. snd (Sanitised ex (type_config ex t)) = Inr sanit \<and>
     yaml_Marshal ex sanit = Inr cBytes \<and>
     json_MarshalIndent ex sanit [] [CHR 0x09] = Inr resBytes \<and>
     files w' (filepath_Join ex dir (t @ ''.yaml'')) = Some (yaml_header @ cBytes) \<and>
     files w' (filepath_Join ex dir (t @ ''.json'')) = Some resBytes"
    using main_file_contents [of ex dir ts w w' t] by blast
  then show "\<exists>sanit resBytes. snd (Sanitised ex (type_config ex t)) = Inr sanit \<and>
         json_MarshalIndent ex sanit [] [CHR 0x09] = Inr resBytes \<and>
         files w' (filepath_Join ex dir (t @ ''.json'')) = Some resBytes"
    by auto
qed

theorem json_file_content_witness:
  "fst (main example_extern ''./config'' [''http'', ''stdout'', ''stdin''] empty_world) = None \<and>
   distinct [''http'', ''stdout'', ''stdin''] \<and>
   paths_distinct example_extern ''./config'' (set [''http'', ''stdout'', ''stdin'']) \<and>
   ''stdin'' \<in> set [''http'', ''stdout'', ''stdin''] \<and>
   files (snd (main example_extern ''./config'' [''http'', ''stdout'', ''stdin''] empty_world))
       ''./config/stdin.json'' =
     Some (''{'' @ [CHR 0x09] @ ''in=stdin,'' @ [CHR 0x09] @ ''out=stdout}'')"
proof -
  let ?ts = "[''http'', ''stdout'', ''stdin'']"
  let ?w' = "snd (main example_extern ''./config'' ?ts empty_world)"
  have h1: "main example_extern ''./config'' ?ts empty_world = (None, ?w')"
    using example_run by (simp add: prod_eq_iff)
  have h2: "distinct ?ts" and h4: "''stdin'' \<in> set ?ts" by simp_all
  note h3 = example_paths_distinct
  have s: "snd (Sanitised example_extern (type_config example_extern ''stdin'')) =
      Inr \<lparr>san_HTTP = ''0.0.0.0:4195'', san_Input = ''in=stdin'', san_Buffer = ''buf=none'',
           san_Pipeline = ''procs=noop'', san_Output = ''out=stdout''\<rparr>"
    by (simp add: ev)
  have y: "json_MarshalIndent example_extern
      \<lparr>san_HTTP = ''0.0.0.0:4195'', san_Input = ''in=stdin'', san_Buffer = ''buf=none'',
       san_Pipeline = ''procs=noop'', san_Output = ''out=stdout''\<rparr> [] [CHR 0x09]
      = Inr (''{'' @ [CHR 0x09] @ ''in=stdin,'' @ [CHR 0x09] @ ''out=stdout}'')"
    by (simp add: example_extern_def)
  have j: "filepath_Join example_extern ''./config'' (''stdin'' @ ''.json'') = ''./config/stdin.json''"
    by (simp add: example_extern_def)
  from json_file_content [THEN conjunct2, rule_format, of example_extern "''./config''" ?ts
      empty_world ?w' "''stdin''"] h1 h2 h3 h4
  obtain sanit resBytes where
    "snd (Sanitised example_extern (type_config example_extern ''stdin'')) = Inr sanit"
    "json_MarshalIndent example_extern sanit [] [CHR 0x09] = Inr resBytes"
    "files ?w' (filepath_Join example_extern ''./config'' (''stdin'' @ ''.json'')) = Some resBytes"
    by blast
  with s y j have "files ?w' ''./config/stdin.json'' =
     Some (''{'' @ [CHR 0x09] @ ''in=stdin,'' @ [CHR 0x09] @ ''out=stdout}'')"
    by auto
  with example_run h2 h3 h4 show ?thesis by simp
qed

text \<open>
  C8. Take two runs with the same library, the three loops of each in any orders, the
  second run on the file system the first one left, both without an error, where no two
  files of the type names have the same file name. Then the second run leaves every file
  as the first one left it. The writes of each run are those of \<open>body_writes\<close>, which
  depend on the library, the directory and the type name only, so both runs write the same
  data to the same files; and a run in the other order from the first run's starting file
  system ends with the same files as the first run.
\<close>

theorem main_idempotent:
  assumes "main_orders ex ins outs ts" and "main_orders ex ins' outs' ts'"
    and "paths_distinct ex dir (set ts)"
    and "main ex dir ts w = (None, w1)" and "main ex dir ts' w1 = (None, w2)"
  shows "files w2 = files w1 \<and>
     writes (trace w1) = writes (trace w) @ concat (map (body_writes ex dir) ts) \<and>
     writes (trace w2) = writes (trace w1) @ concat (map (body_writes ex dir) ts') \<and>
     set (concat (map (body_writes ex dir) ts')) = set (concat (map (body_writes ex dir) ts)) \<and>
     (\<forall>v v'. files v = files w \<and> main ex dir ts' v = (None, v') \<longrightarrow> files v' = files w1)"
proof -
  from main_orders_names [OF assms(1)] main_orders_names [OF assms(2)]
  have d: "distinct ts" "distinct ts'" and s: "set ts = set ts'"
    by simp_all
  from assms(4,5) have r1: "main_loop ex dir ts w = (None, w1)"
    and r2: "main_loop ex dir ts' w1 = (None, w2)"
    by (simp_all add: main_def)
  have keep: "\<forall>p. p \<notin> set (out_paths ex dir ts) \<longrightarrow> files w1 p = files w p"
    using main_loop_files [OF r1 d(1) assms(3)] by blast
  have a: "files w2 = files w1"
    by (rule main_loop_files_eq [OF r1 r2 d s assms(3)]) (use keep in blast)
  have b: "files v' = files w1" if "files v = files w" "main ex dir ts' v = (None, v')" for v v'
  proof -
    from that(2) have rv: "main_loop ex dir ts' v = (None, v')"
      by (simp add: main_def)
    show ?thesis
      by (rule main_loop_files_eq [OF r1 rv d s assms(3)]) (simp add: that(1))
  qed
  have c: "set (concat (map (body_writes ex dir) ts')) = set (concat (map (body_writes ex dir) ts))"
    using s by simp
  from main_loop_ok [OF r1] main_loop_ok [OF r2] a b c show ?thesis
    by blast
qed

theorem main_idempotent_witness:
  "main_orders example_extern [''stdin'', ''http''] [''stdout'', ''http'']
     [''http'', ''stdout'', ''stdin''] \<and>
   main_orders example_extern [''http'', ''stdin''] [''http'', ''stdout'']
     [''stdin'', ''http'', ''stdout''] \<and>
   paths_distinct example_extern ''./config'' (set [''http'', ''stdout'', ''stdin'']) \<and>
   fst (main example_extern ''./config'' [''http'', ''stdout'', ''stdin''] empty_world) = None \<and>
   fst (main example_extern ''./config'' [''stdin'', ''http'', ''stdout'']
     (snd (main example_extern ''./config'' [''http'', ''stdout'', ''stdin''] empty_world))) = None \<and>
   files (snd (main example_extern ''./config'' [''stdin'', ''http'', ''stdout'']
     (snd (main example_extern ''./config'' [''http'', ''stdout'', ''stdin''] empty_world)))) =
   files (snd (main example_extern ''./config'' [''http'', ''stdout'', ''stdin''] empty_world))"
proof -
  let ?ts = "[''http'', ''stdout'', ''stdin'']"
  let ?ts' = "[''stdin'', ''http'', ''stdout'']"
  let ?w1 = "snd (main example_extern ''./config'' ?ts empty_world)"
  let ?w2 = "snd (main example_extern ''./config'' ?ts' ?w1)"
  have o1: "main_orders example_extern [''stdin'', ''http''] [''stdout'', ''http''] ?ts"
    by (auto simp add: main_orders_def range_order_def typeMap_def example_extern_def)
  have o2: "main_orders example_extern [''http'', ''stdin''] [''http'', ''stdout''] ?ts'"
    by (auto simp add: main_orders_def range_order_def typeMap_def example_extern_def)
  note pd = example_paths_distinct
  have r1: "main example_extern ''./config'' ?ts empty_world = (None, ?w1)"
    using example_run by (simp add: prod_eq_iff)
  have f2: "fst (main example_extern ''./config'' ?ts' ?w1) = None"
    by (simp add: ev)
  then have r2: "main example_extern ''./config'' ?ts' ?w1 = (None, ?w2)"
    by (simp add: prod_eq_iff)
  from main_idempotent [OF o1 o2 pd r1 r2] have "files ?w2 = files ?w1"
    by blast
  with o1 o2 pd example_run f2 show ?thesis by simp
qed

text \<open>
  C9. Every call of \<^verbatim>\<open>ioutil.WriteFile\<close> in a run of \<^verbatim>\<open>main\<close>, whatever its outcome, has
  the permission argument \<^verbatim>\<open>0644\<close> (420). When the encoder succeeds, \<^verbatim>\<open>createYAML\<close> and
  \<^verbatim>\<open>createJSON\<close> request the write whatever the file system holds, and after a successful
  write the file holds the new data, whatever it held before.
\<close>

theorem writes_perm_0644_overwrite:
  "perm_0644 = 420 \<and>
   (\<exists>evs. trace (snd (main ex dir ts w)) = trace w @ evs \<and>
      (\<forall>p d m. WriteFile p d m \<in> set evs \<longrightarrow> m = perm_0644)) \<and>
   (yaml_Marshal ex sanit = Inr cBytes \<longrightarrow>
      (\<exists>evs. trace (snd (createYAML ex t path sanit w)) =
         trace w @ WriteFile path (yaml_header @ cBytes) perm_0644 # evs)) \<and>
   (json_MarshalIndent ex sanit [] [CHR 0x09] = Inr resBytes \<longrightarrow>
      (\<exists>evs. trace (snd (createJSON ex t path sanit w)) =
         trace w @ WriteFile path resBytes perm_0644 # evs)) \<and>
   (yaml_Marshal ex sanit = Inr cBytes \<and> createYAML ex t path sanit w = (None, w') \<longrightarrow>
      files w' path = Some (yaml_header @ cBytes)) \<and>
   (json_MarshalIndent ex sanit [] [CHR 0x09] = Inr resBytes \<and>
      createJSON ex t path sanit w = (None, w') \<longrightarrow> files w' path = Some resBytes)"
proof (intro conjI impI)
  show "perm_0644 = 420" by (simp add: perm_0644_def)
  show "\<exists>evs. trace (snd (main ex dir ts w)) = trace w @ evs \<and>
      (\<forall>p d m. WriteFile p d m \<in> set evs \<longrightarrow> m = perm_0644)"
    unfolding main_def by (rule main_loop_trace)
next
  assume "yaml_Marshal ex sanit = Inr cBytes"
  then show "\<exists>evs. trace (snd (createYAML ex t path sanit w)) =
         trace w @ WriteFile path (yaml_header @ cBytes) perm_0644 # evs"
    by (rule createYAML_requests_write)
next
  assume "json_MarshalIndent ex sanit [] [CHR 0x09] = Inr resBytes"
  then show "\<exists>evs. trace (snd (createJSON ex t path sanit w)) =
         trace w @ WriteFile path resBytes perm_0644 # evs"
    by (rule createJSON_requests_write)
next
  assume "yaml_Marshal ex sanit = Inr cBytes \<and> createYAML ex t path sanit w = (None, w')"
  then show "files w' path = Some (yaml_header @ cBytes)"
    using createYAML_ok [of ex t path sanit w w'] by auto
next
  assume "json_MarshalIndent ex sanit [] [CHR 0x09] = Inr resBytes \<and>
      createJSON ex t path sanit w = (None, w')"
  then show "files w' path = Some resBytes"
    using createJSON_ok [of ex t path sanit w w'] by auto
qed

theorem writes_perm_0644_overwrite_witness:
  "yaml_Marshal example_extern
      \<lparr>san_HTTP = ''h'', san_Input = ''a'', san_Buffer = ''b'', san_Pipeline = ''c'',
       san_Output = ''d''\<rparr> = Inr ''a d'' \<and>
   files \<lparr>files = [''f.yaml'' \<mapsto> ''old''], trace = []\<rparr> ''f.yaml'' = Some ''old'' \<and>
   fst (createYAML example_extern ''http'' ''f.yaml''
      \<lparr>san_HTTP = ''h'', san_Input = ''a'', san_Buffer = ''b'', san_Pipeline = ''c'',
       san_Output = ''d''\<rparr> \<lparr>files = [''f.yaml'' \<mapsto> ''old''], trace = []\<rparr>) = None \<and>
   files (snd (createYAML example_extern ''http'' ''f.yaml''
      \<lparr>san_HTTP = ''h'', san_Input = ''a'', san_Buffer = ''b'', san_Pipeline = ''c'',
       san_Output = ''d''\<rparr> \<lparr>files = [''f.yaml'' \<mapsto> ''old''], trace = []\<rparr>)) ''f.yaml''
     = Some (yaml_header @ ''a d'') \<and>
   writes (trace (snd (createYAML example_extern ''http'' ''f.yaml''
      \<lparr>san_HTTP = ''h'', san_Input = ''a'', san_Buffer = ''b'', san_Pipeline = ''c'',
       san_Output = ''d''\<rparr> \<lparr>files = [''f.yaml'' \<mapsto> ''old''], trace = []\<rparr>)))
     = [(''f.yaml'', yaml_header @ ''a d'', 420)] \<and>
   json_MarshalIndent example_extern
      \<lparr>san_HTTP = ''h'', san_Input = ''a'', san_Buffer = ''b'', san_Pipeline = ''c'',
       san_Output = ''d''\<rparr> [] [CHR 0x09] = Inr (''{'' @ [CHR 0x09] @ ''a,'' @ [CHR 0x09] @ ''d}'') \<and>
   fst (createJSON example_extern ''http'' ''f.yaml''
      \<lparr>san_HTTP = ''h'', san_Input = ''a'', san_Buffer = ''b'', san_Pipeline = ''c'',
       san_Output = ''d''\<rparr> \<lparr>files = [''f.yaml'' \<mapsto> ''old''], trace = []\<rparr>) = None \<and>
   files (snd (createJSON example_extern ''http'' ''f.yaml''
      \<lparr>san_HTTP = ''h'', san_Input = ''a'', san_Buffer = ''b'', san_Pipeline = ''c'',
       san_Output = ''d''\<rparr> \<lparr>files = [''f.yaml'' \<mapsto> ''old''], trace = []\<rparr>)) ''f.yaml''
     = Some (''{'' @ [CHR 0x09] @ ''a,'' @ [CHR 0x09] @ ''d}'')"
proof -
  let ?s = "\<lparr>san_HTTP = ''h'', san_Input = ''a'', san_Buffer = ''b'', san_Pipeline = ''c'',
       san_Output = ''d''\<rparr> :: (string, string) Sanitised_Config"
  let ?w = "\<lparr>files = [''f.yaml'' \<mapsto> ''old''], trace = []\<rparr>"
  let ?y = "createYAML example_extern ''http'' ''f.yaml'' ?s ?w"
  let ?j = "createJSON example_extern ''http'' ''f.yaml'' ?s ?w"
  have m: "yaml_Marshal example_extern ?s = Inr ''a d''"
    "json_MarshalIndent example_extern ?s [] [CHR 0x09]
       = Inr (''{'' @ [CHR 0x09] @ ''a,'' @ [CHR 0x09] @ ''d}'')"
    by (simp_all add: example_extern_def)
  have y0: "fst ?y = None" and j0: "fst ?j = None"
    by (simp_all add: ev)
  then have y: "?y = (None, snd ?y)" and j: "?j = (None, snd ?j)"
    by (simp_all add: prod_eq_iff)
  have t: "writes (trace (snd ?y)) = [(''f.yaml'', yaml_header @ ''a d'', 420)]"
    by (simp add: ev)
  from writes_perm_0644_overwrite [where ex = example_extern and sanit = ?s
      and cBytes = "''a d''" and t = "''http''" and path = "''f.yaml''" and w = ?w
      and w' = "snd ?y"] m(1) y
  have fy: "files (snd ?y) ''f.yaml'' = Some (yaml_header @ ''a d'')"
    by blast
  from writes_perm_0644_overwrite [where ex = example_extern and sanit = ?s
      and resBytes = "''{'' @ [CHR 0x09] @ ''a,'' @ [CHR 0x09] @ ''d}''" and t = "''http''"
      and path = "''f.yaml''" and w = ?w and w' = "snd ?j"] m(2) j
  have fj: "files (snd ?j) ''f.yaml'' = Some (''{'' @ [CHR 0x09] @ ''a,'' @ [CHR 0x09] @ ''d}'')"
    by blast
  from m y0 j0 t fy fj show ?thesis by simp
qed

text \<open>
  C10. In the configuration of every type name, the \<^verbatim>\<open>HTTP\<close> and \<^verbatim>\<open>Buffer\<close> sections are
  the library's defaults, and so is every field of the input, pipeline and output sections
  other than the two types and the three processor lists; \<^verbatim>\<open>NewConfig\<close> takes each of
  its five sections from the library's constructor of that section.
\<close>

theorem type_config_frame:
  "HTTP (type_config ex t) = api_NewConfig ex \<and>
   Buffer (type_config ex t) = buffer_NewConfig ex \<and>
   input_other (Input (type_config ex t)) = input_other (input_NewConfig ex) \<and>
   pipeline_other (Pipeline (type_config ex t)) = pipeline_other (pipeline_NewConfig ex) \<and>
   output_other (Output (type_config ex t)) = output_other (output_NewConfig ex) \<and>
   HTTP (NewConfig ex) = api_NewConfig ex \<and>
   Input (NewConfig ex) = input_NewConfig ex \<and>
   Buffer (NewConfig ex) = buffer_NewConfig ex \<and>
   Pipeline (NewConfig ex) = pipeline_NewConfig ex \<and>
   Output (NewConfig ex) = output_NewConfig ex"
  by (simp add: type_config_def NewConfig_def Let_def)

end
